theory Spec2Isabelle
  imports Complex_Main "HOL-Library.Multiset"
begin

section \<open>JavaScript built-ins used by the client\<close>

text \<open>
  Strings are lists of characters (code units below 256). \<open>toUpperCase\<close> maps the ASCII
  letters as the language defines and leaves the other ASCII characters as they are.
  What the host does with a character outside ASCII (it may map it to another character
  or to several: the sharp s becomes \<open>SS\<close>) is not fixed here: it is the first argument of
  \<open>toUpperCase\<close>, and a handler reads it from its environment.
\<close>

definition isAscii :: "char \<Rightarrow> bool" where
  "isAscii c = ((of_char c :: nat) < 128)"

definition toUpperCase_char :: "char \<Rightarrow> char" where
  \<comment> \<open>an ASCII character\<close>
  "toUpperCase_char c =
     (case map_of (zip ''abcdefghijklmnopqrstuvwxyz'' ''ABCDEFGHIJKLMNOPQRSTUVWXYZ'') c of
        Some u \<Rightarrow> u
      | None \<Rightarrow> c)"

definition toUpperCase :: "(char \<Rightarrow> string) \<Rightarrow> string \<Rightarrow> string" where
  "toUpperCase up s = concat (map (\<lambda>c. if isAscii c then [toUpperCase_char c] else up c) s)"

definition substring :: "string \<Rightarrow> nat \<Rightarrow> nat \<Rightarrow> string" where
  \<comment> \<open>\<open>s.substring(i, j)\<close> for \<open>i \<le> j\<close>; both indices are clamped to the length.\<close>
  "substring s i j = take (j - i) (drop i s)"

definition startsWith :: "string \<Rightarrow> string \<Rightarrow> bool" where
  "startsWith s p = (take (length p) s = p)"

definition isWhiteSpace :: "char \<Rightarrow> bool" where
  "isWhiteSpace c = ((of_char c :: nat) \<in> set [9, 10, 11, 12, 13, 32, 160])"

definition trim :: "string \<Rightarrow> string" where
  "trim s = rev (dropWhile isWhiteSpace (rev (dropWhile isWhiteSpace s)))"

definition digitValue :: "char \<Rightarrow> nat option" where
  "digitValue c =
     (let n = (of_char c :: nat) in
      if 48 \<le> n \<and> n \<le> 57 then Some (n - 48)
      else if 97 \<le> n \<and> n \<le> 122 then Some (n - 87)
      else if 65 \<le> n \<and> n \<le> 90 then Some (n - 55)
      else None)"

definition isDigitIn :: "nat \<Rightarrow> char \<Rightarrow> bool" where
  "isDigitIn radix c = (case digitValue c of None \<Rightarrow> False | Some v \<Rightarrow> v < radix)"

definition digitsValue :: "nat \<Rightarrow> string \<Rightarrow> nat" where
  "digitsValue radix ds = foldl (\<lambda>acc c. acc * radix + (case digitValue c of None \<Rightarrow> 0 | Some v \<Rightarrow> v)) 0 ds"

definition parseInt :: "string \<Rightarrow> int option" where
  \<comment> \<open>\<open>parseInt(s)\<close> with no radix argument; \<open>None\<close> is \<open>NaN\<close>.\<close>
  "parseInt s =
     (let t = dropWhile isWhiteSpace s;
          neg = (t \<noteq> [] \<and> hd t = CHR ''-'');
          u = (if t \<noteq> [] \<and> (hd t = CHR ''-'' \<or> hd t = CHR ''+'') then tl t else t);
          hex = (startsWith u ''0x'' \<or> startsWith u ''0X'');
          radix = (if hex then 16 else 10);
          ds = takeWhile (isDigitIn radix) (if hex then drop 2 u else u)
      in if ds = [] then None
         else Some ((if neg then - 1 else 1) * int (digitsValue radix ds)))"

fun string_of_nat :: "nat \<Rightarrow> string" where
  "string_of_nat n =
     (if n < 10 then [''0123456789'' ! n]
      else string_of_nat (n div 10) @ [''0123456789'' ! (n mod 10)])"

definition string_of_int :: "int \<Rightarrow> string" where
  "string_of_int i = (if i < 0 then CHR ''-'' # string_of_nat (nat (- i)) else string_of_nat (nat i))"

section \<open>The hosted store\<close>

text \<open>
  The client talks to a hosted SQL store. The repository holds two definitions of the
  \<open>soldiers\<close> table: \<open>migration_create_soldiers_table.sql\<close> and a second script
  (\<open>unnamed/part_000\<close>); they differ in the column types and in the check on \<open>age\<close>.
  The store below follows the table definitions and the meaning of the statements the
  client issues (\<open>INSERT ... RETURNING\<close>, \<open>UPDATE ... WHERE id = ... RETURNING\<close>,
  \<open>DELETE ... WHERE\<close>, \<open>SELECT ... ORDER BY created_at DESC\<close>). Timestamps are
  natural numbers; \<open>NOW()\<close> is given by the caller of each operation.
\<close>

datatype schema = Migration | Part000

record soldier =
  soldier_id :: int
  name :: string
  position :: string
  sex :: string
  age :: int
  status :: string
  photo_data :: "string option"
  created_at :: nat
  updated_at :: nat

text \<open>The object the client sends with an insert or an update (\<open>soldierData\<close>).\<close>

record soldierData =
  new_name :: string
  new_position :: string
  new_sex :: string
  new_age :: "int option"
  new_status :: string
  new_photo_data :: string

datatype store_error =
    ConnectionFailed
  | ValueTooLong string
  | IntegerOutOfRange string
  | NotNullViolation string
  | CheckViolation string

fun age_check :: "schema \<Rightarrow> int \<Rightarrow> bool" where
  "age_check Migration a = (a > 0 \<and> a < 120)"
| "age_check Part000 a = (a > 0)"

definition sex_check :: "string \<Rightarrow> bool" where
  "sex_check s = (s \<in> set [''Male'', ''Female''])"

definition status_check :: "string \<Rightarrow> bool" where
  "status_check s = (s \<in> set [''Active'', ''Inactive''])"

definition integer_ok :: "int \<Rightarrow> bool" where
  "integer_ok a = (- 2147483648 \<le> a \<and> a \<le> 2147483647)"

definition varchar :: "nat \<Rightarrow> string \<Rightarrow> string option" where
  \<comment> \<open>\<open>VARCHAR(n)\<close>: a longer value is an error unless the excess is all spaces.\<close>
  "varchar n s =
     (if length s \<le> n then Some s
      else if list_all (\<lambda>c. c = CHR '' '') (drop n s) then Some (take n s)
      else None)"

fun text_column :: "schema \<Rightarrow> nat \<Rightarrow> string \<Rightarrow> string option" where
  \<comment> \<open>the first script declares \<open>VARCHAR(n)\<close> columns, the second \<open>TEXT\<close>\<close>
  "text_column Migration n s = varchar n s"
| "text_column Part000 n s = Some s"

definition set_columns :: "schema \<Rightarrow> soldierData \<Rightarrow> soldier \<Rightarrow> store_error + soldier" where
  "set_columns sch d r =
     (case text_column sch 255 (new_name d) of
        None \<Rightarrow> Inl (ValueTooLong ''name'')
      | Some n \<Rightarrow>
     (case text_column sch 255 (new_position d) of
        None \<Rightarrow> Inl (ValueTooLong ''position'')
      | Some p \<Rightarrow>
     (case text_column sch 10 (new_sex d) of
        None \<Rightarrow> Inl (ValueTooLong ''sex'')
      | Some sx \<Rightarrow>
     (case new_age d of
        None \<Rightarrow> Inl (NotNullViolation ''age'')
      | Some a \<Rightarrow>
     if \<not> integer_ok a then Inl (IntegerOutOfRange ''age'') else
     (case text_column sch 20 (new_status d) of
        None \<Rightarrow> Inl (ValueTooLong ''status'')
      | Some st \<Rightarrow>
     (case text_column sch 10 (new_photo_data d) of
        None \<Rightarrow> Inl (ValueTooLong ''photo_data'')
      | Some ph \<Rightarrow>
     if \<not> sex_check sx then Inl (CheckViolation ''sex'')
     else if \<not> age_check sch a then Inl (CheckViolation ''age'')
     else if \<not> status_check st then Inl (CheckViolation ''status'')
     else Inr (r\<lparr>name := n, position := p, sex := sx, age := a, status := st,
                photo_data := Some ph\<rparr>)))))))"

text \<open>Rows of \<open>system_logs\<close>; entries the client builds locally carry no \<open>created_by\<close>.\<close>

datatype json =
    JNull
  | JStr string
  | JNum rat
  | JArr "json list"
  | JObj "(string \<times> json) list"

record system_log =
  log_id :: int
  log_created_at :: nat
  level :: string
  tag :: "string option"
  message :: string
  log_context :: json
  created_by :: "string option"

record db =
  ddl :: schema
  soldiers_tbl :: "soldier list"
  soldiers_seq :: int
  system_logs_tbl :: "system_log list"
  system_logs_seq :: int

definition insert_soldier :: "nat \<Rightarrow> soldierData \<Rightarrow> db \<Rightarrow> (store_error + soldier) \<times> db" where
  \<comment> \<open>\<open>INSERT INTO soldiers (...) VALUES (...) RETURNING *\<close>: \<open>id\<close> comes from the sequence
      (a rejected row consumes its value), both timestamps default to \<open>NOW()\<close>.\<close>
  "insert_soldier now d s =
     (let fresh = \<lparr>soldier_id = soldiers_seq s, name = [], position = [], sex = [], age = 0,
                    status = ''Active'', photo_data = None, created_at = now, updated_at = now\<rparr>;
          s' = s\<lparr>soldiers_seq := soldiers_seq s + 1\<rparr>
      in case set_columns (ddl s) d fresh of
           Inl e \<Rightarrow> (Inl e, s')
         | Inr r \<Rightarrow> (Inr r, s'\<lparr>soldiers_tbl := soldiers_tbl s' @ [r]\<rparr>))"

definition update_updated_at_column :: "nat \<Rightarrow> soldier \<Rightarrow> soldier" where
  \<comment> \<open>the trigger function: \<open>NEW.updated_at = NOW(); RETURN NEW\<close>\<close>
  "update_updated_at_column now new = new\<lparr>updated_at := now\<rparr>"

definition update_row :: "schema \<Rightarrow> nat \<Rightarrow> soldierData \<Rightarrow> soldier \<Rightarrow> store_error + soldier" where
  \<comment> \<open>the new version of one row: the \<open>SET\<close> list, then the \<open>BEFORE UPDATE\<close> trigger\<close>
  "update_row sch now d old =
     (case set_columns sch d old of
        Inl e \<Rightarrow> Inl e
      | Inr new \<Rightarrow> Inr (update_updated_at_column now new))"

fun update_rows :: "schema \<Rightarrow> nat \<Rightarrow> soldierData \<Rightarrow> int \<Rightarrow> soldier list \<Rightarrow> store_error + (soldier list \<times> soldier list)" where
  \<comment> \<open>returns the new table and the rows that were updated\<close>
  "update_rows sch now d i [] = Inr ([], [])"
| "update_rows sch now d i (r # rs) =
     (if soldier_id r = i then
        (case update_row sch now d r of
           Inl e \<Rightarrow> Inl e
         | Inr r' \<Rightarrow>
            (case update_rows sch now d i rs of
               Inl e \<Rightarrow> Inl e
             | Inr (tbl, upd) \<Rightarrow> Inr (r' # tbl, r' # upd)))
      else
        (case update_rows sch now d i rs of
           Inl e \<Rightarrow> Inl e
         | Inr (tbl, upd) \<Rightarrow> Inr (r # tbl, upd)))"

definition update_soldier :: "nat \<Rightarrow> soldierData \<Rightarrow> int \<Rightarrow> db \<Rightarrow> (store_error + soldier list) \<times> db" where
  \<comment> \<open>\<open>UPDATE soldiers SET ... WHERE id = i RETURNING *\<close>; a failing statement changes nothing\<close>
  "update_soldier now d i s =
     (case update_rows (ddl s) now d i (soldiers_tbl s) of
        Inl e \<Rightarrow> (Inl e, s)
      | Inr (tbl, upd) \<Rightarrow> (Inr upd, s\<lparr>soldiers_tbl := tbl\<rparr>))"

definition delete_soldier :: "int \<Rightarrow> db \<Rightarrow> db" where
  \<comment> \<open>\<open>DELETE FROM soldiers WHERE id = i\<close>\<close>
  "delete_soldier i s = s\<lparr>soldiers_tbl := filter (\<lambda>r. soldier_id r \<noteq> i) (soldiers_tbl s)\<rparr>"

definition select_soldiers :: "db \<Rightarrow> soldier list" where
  \<comment> \<open>\<open>SELECT * FROM soldiers ORDER BY created_at DESC\<close>\<close>
  "select_soldiers s = rev (sort_key created_at (soldiers_tbl s))"

text \<open>The log table: \<open>created_by\<close> defaults to \<open>system\<close>, \<open>level\<close> is checked.\<close>

record logData =
  new_level :: string
  new_tag :: "string option"
  new_message :: string
  new_context :: json
  new_created_by :: "string option"

definition level_check :: "string \<Rightarrow> bool" where
  "level_check l = (l \<in> set [''ERROR'', ''WARN'', ''INFO'', ''DEBUG''])"

definition insert_log :: "nat \<Rightarrow> logData \<Rightarrow> db \<Rightarrow> (store_error + system_log) \<times> db" where
  "insert_log now d s =
     (let s' = s\<lparr>system_logs_seq := system_logs_seq s + 1\<rparr> in
      case varchar 20 (new_level d) of
        None \<Rightarrow> (Inl (ValueTooLong ''level''), s')
      | Some l \<Rightarrow>
     (case (case new_tag d of None \<Rightarrow> Some None | Some t \<Rightarrow> map_option Some (varchar 50 t)) of
        None \<Rightarrow> (Inl (ValueTooLong ''tag''), s')
      | Some t \<Rightarrow>
     (case (case new_created_by d of None \<Rightarrow> Some ''system'' | Some c \<Rightarrow> varchar 100 c) of
        None \<Rightarrow> (Inl (ValueTooLong ''created_by''), s')
      | Some c \<Rightarrow>
     if \<not> level_check l then (Inl (CheckViolation ''level''), s')
     else
       (let r = \<lparr>log_id = system_logs_seq s, log_created_at = now, level = l, tag = t,
                  message = new_message d, log_context = new_context d, created_by = Some c\<rparr>
        in (Inr r, s'\<lparr>system_logs_tbl := system_logs_tbl s' @ [r]\<rparr>)))))"

definition delete_logs_neq :: "int \<Rightarrow> db \<Rightarrow> db" where
  \<comment> \<open>\<open>DELETE FROM system_logs WHERE id <> i\<close>\<close>
  "delete_logs_neq i s = s\<lparr>system_logs_tbl := filter (\<lambda>r. \<not> (log_id r \<noteq> i)) (system_logs_tbl s)\<rparr>"

definition select_logs :: "nat \<Rightarrow> db \<Rightarrow> system_log list" where
  \<comment> \<open>\<open>SELECT * FROM system_logs ORDER BY created_at DESC LIMIT n\<close>\<close>
  "select_logs n s = take n (rev (sort_key log_created_at (system_logs_tbl s)))"

definition empty_db :: "schema \<Rightarrow> db" where
  \<comment> \<open>the state right after \<open>CREATE TABLE\<close>: no rows, both sequences at 1\<close>
  "empty_db sch = \<lparr>ddl = sch, soldiers_tbl = [], soldiers_seq = 1,
                   system_logs_tbl = [], system_logs_seq = 1\<rparr>"

definition error_message :: "store_error \<Rightarrow> string" where
  \<comment> \<open>the \<open>message\<close> field of the error object the store client hands back\<close>
  "error_message e =
     (case e of
        ConnectionFailed \<Rightarrow> ''Failed to fetch''
      | ValueTooLong c \<Rightarrow> ''value too long for column '' @ c
      | IntegerOutOfRange c \<Rightarrow> ''value out of range for column '' @ c
      | NotNullViolation c \<Rightarrow> ''null value in column '' @ c
      | CheckViolation c \<Rightarrow> ''check constraint violated on column '' @ c)"

section \<open>The client (\<open>src/App.tsx\<close>)\<close>

text \<open>
  The component's state, the store it talks to and the effects it has on the outside
  (alerts, console output, requests) are one record. Every handler is a function on that
  record; what the handler reads from the outside (the clocks, whether the request
  reaches the store) is its first argument. A handler runs to completion before the
  next one starts. State that only drives the layout (the clock in the header, the
  details dialog) and the camera, tracking and socket objects are left out: no handler
  below reads them.
\<close>

record form =
  f_name :: string
  f_position :: string
  f_sex :: string
  f_age :: string
  f_status :: string

datatype store_call =
    InsertSoldier soldierData
  | UpdateSoldier soldierData int
  | DeleteSoldier int
  | SelectSoldiers
  | InsertLog logData
  | DeleteLogs
  | SelectLogs nat

datatype effect =
    Alert string
  | ConsoleError string
  | ConsoleLog string
  | StoreCall store_call
  | Fetch string

record world =
  systemLogs :: "system_log list"
  soldiers :: "soldier option list"
  newSoldier :: form
  soldierImage :: "string option"
  editingSoldier :: "soldier option"
  showAddForm :: bool
  isCameraOpen :: bool
  faceDetected :: bool
  isComparing :: bool
  comparisonResult :: "soldier option"
  loading :: bool
  store :: db
  effects :: "effect list"

record env =
  client_now :: nat
  server_now :: nat
  connected :: bool
  host_upper :: "char \<Rightarrow> string"

text \<open>
  Values a handler can throw and catch, and \<open>String(error)\<close> of each. The store client
  hands back a plain object; thrown as it is, it prints as \<open>[object Object]\<close>.
\<close>

datatype thrown =
    JsError string
  | TypeError string
  | StoreError store_error

definition string_of_thrown :: "thrown \<Rightarrow> string" where
  "string_of_thrown t =
     (case t of
        JsError m \<Rightarrow> ''Error: '' @ m
      | TypeError m \<Rightarrow> ''TypeError: '' @ m
      | StoreError e \<Rightarrow> ''[object Object]'')"

definition empty_form :: form where
  "empty_form = \<lparr>f_name = [], f_position = [], f_sex = ''Male'', f_age = [], f_status = ''Active''\<rparr>"

definition initial_world :: "db \<Rightarrow> world" where
  \<comment> \<open>the \<open>useState\<close> initial values\<close>
  "initial_world s =
     \<lparr>systemLogs = [], soldiers = [], newSoldier = empty_form, soldierImage = None,
      editingSoldier = None, showAddForm = False, isCameraOpen = False, faceDetected = False,
      isComparing = False, comparisonResult = None, loading = True, store = s, effects = []\<rparr>"

definition local_log :: "nat \<Rightarrow> string \<Rightarrow> string \<Rightarrow> string \<Rightarrow> json \<Rightarrow> system_log" where
  \<comment> \<open>\<open>{id: Date.now(), created_at: new Date().toISOString(), level, tag, message, context}\<close>\<close>
  "local_log now lvl tg msg ctx =
     \<lparr>log_id = int now, log_created_at = now, level = lvl, tag = Some tg, message = msg,
      log_context = ctx, created_by = None\<rparr>"

definition add_log :: "system_log \<Rightarrow> system_log list \<Rightarrow> system_log list" where
  \<comment> \<open>\<open>prev => [newLog, ...prev.slice(0, 99)]\<close>\<close>
  "add_log l prev = l # take 99 prev"

definition log_error :: "env \<Rightarrow> string \<Rightarrow> string \<Rightarrow> thrown \<Rightarrow> world \<Rightarrow> world" where
  \<comment> \<open>the entry every \<open>catch\<close> block of the handlers writes: level \<open>ERROR\<close>, the
      message is the prefix followed by \<open>String(error)\<close>\<close>
  "log_error e tg prefix t w =
     w\<lparr>systemLogs :=
         add_log (local_log (client_now e) ''ERROR'' tg (prefix @ string_of_thrown t)
                    (JObj [(''error'', JStr (string_of_thrown t))]))
           (systemLogs w)\<rparr>"

definition photoData :: "(char \<Rightarrow> string) \<Rightarrow> string \<Rightarrow> string option \<Rightarrow> string option" where
  \<comment> \<open>the first lines of \<open>addSoldier\<close> and \<open>updateSoldier\<close>; \<open>None\<close> is the early
      \<open>return\<close> after the alert\<close>
  "photoData up nm img =
     (let fallback = toUpperCase up (substring nm 0 2) in
      case img of
        None \<Rightarrow> Some fallback
      | Some i \<Rightarrow>
          if i \<noteq> [] \<and> startsWith i ''data:image'' then
            (if length i > 1024 * 1024 then None else Some i)
          else Some fallback)"

definition form_data :: "form \<Rightarrow> string \<Rightarrow> soldierData" where
  "form_data f ph =
     \<lparr>new_name = f_name f, new_position = f_position f, new_sex = f_sex f,
      new_age = parseInt (f_age f), new_status = f_status f, new_photo_data = ph\<rparr>"

definition supabase_insert_soldier :: "env \<Rightarrow> soldierData \<Rightarrow> db \<Rightarrow> (store_error + soldier) \<times> db" where
  \<comment> \<open>\<open>supabase.from('soldiers').insert([d]).select()\<close>; the result is \<open>data[0]\<close>\<close>
  "supabase_insert_soldier e d s =
     (if connected e then insert_soldier (server_now e) d s else (Inl ConnectionFailed, s))"

definition supabase_update_soldier :: "env \<Rightarrow> soldierData \<Rightarrow> int \<Rightarrow> db \<Rightarrow> (store_error + soldier list) \<times> db" where
  \<comment> \<open>\<open>supabase.from('soldiers').update(d).eq('id', i).select()\<close>\<close>
  "supabase_update_soldier e d i s =
     (if connected e then update_soldier (server_now e) d i s else (Inl ConnectionFailed, s))"

definition supabase_delete_soldier :: "env \<Rightarrow> int \<Rightarrow> db \<Rightarrow> store_error option \<times> db" where
  \<comment> \<open>\<open>supabase.from('soldiers').delete().eq('id', i)\<close>\<close>
  "supabase_delete_soldier e i s =
     (if connected e then (None, delete_soldier i s) else (Some ConnectionFailed, s))"

definition supabase_select_soldiers :: "env \<Rightarrow> db \<Rightarrow> store_error + soldier list" where
  \<comment> \<open>\<open>supabase.from('soldiers').select('*').order('created_at', {ascending: false})\<close>\<close>
  "supabase_select_soldiers e s =
     (if connected e then Inr (select_soldiers s) else Inl ConnectionFailed)"

definition addSoldier :: "env \<Rightarrow> world \<Rightarrow> world" where
  "addSoldier e w =
     (let f = newSoldier w in
      if f_name f \<noteq> [] \<and> f_position f \<noteq> [] \<and> f_age f \<noteq> [] then
        (case photoData (host_upper e) (f_name f) (soldierImage w) of
           None \<Rightarrow> w\<lparr>effects := effects w @ [Alert ''Image is too large. Please use a smaller image.'']\<rparr>
         | Some ph \<Rightarrow>
            (let d = form_data f ph;
                 (res, st) = supabase_insert_soldier e d (store w);
                 w1 = w\<lparr>store := st, effects := effects w @ [StoreCall (InsertSoldier d)]\<rparr>
             in case res of
                  Inl err \<Rightarrow>
                    log_error e ''SOLDIER_MGMT'' ''Failed to add soldier: ''
                      (JsError (''Database error: '' @ error_message err))
                      (w1\<lparr>effects := effects w1 @ [ConsoleError ''Supabase error:'',
                                                    ConsoleError ''Error adding soldier:'']\<rparr>)
                | Inr row \<Rightarrow>
                    w1\<lparr>soldiers := soldiers w1 @ [Some row],
                       newSoldier := empty_form,
                       soldierImage := None,
                       showAddForm := False,
                       systemLogs :=
                         add_log (local_log (client_now e) ''INFO'' ''SOLDIER_MGMT''
                                    (''Soldier added: '' @ new_name d)
                                    (JObj [(''action'', JStr ''add''), (''soldierName'', JStr (new_name d))]))
                           (systemLogs w1)\<rparr>))
      else w)"

definition editSoldier :: "soldier \<Rightarrow> world \<Rightarrow> world" where
  "editSoldier s w =
     w\<lparr>editingSoldier := Some s,
       newSoldier := \<lparr>f_name = name s, f_position = position s, f_sex = sex s,
                      f_age = string_of_int (age s), f_status = status s\<rparr>,
       soldierImage :=
         (case photo_data s of
            None \<Rightarrow> None
          | Some ph \<Rightarrow> if ph \<noteq> [] \<and> startsWith ph ''data:'' then Some ph else None),
       showAddForm := True\<rparr>"

definition undefined_id :: thrown where
  \<comment> \<open>reading \<open>s.id\<close> of an \<open>undefined\<close> element of the roster\<close>
  "undefined_id = TypeError ''Cannot read properties of undefined (reading 'id')''"

definition updateSoldier :: "env \<Rightarrow> world \<Rightarrow> world" where
  "updateSoldier e w =
     (let f = newSoldier w in
      case editingSoldier w of
        None \<Rightarrow> w
      | Some ed \<Rightarrow>
      if f_name f \<noteq> [] \<and> f_position f \<noteq> [] \<and> f_age f \<noteq> [] then
        (case photoData (host_upper e) (f_name f) (soldierImage w) of
           None \<Rightarrow> w\<lparr>effects := effects w @ [Alert ''Image is too large. Please use a smaller image.'']\<rparr>
         | Some ph \<Rightarrow>
            (let d = form_data f ph;
                 (res, st) = supabase_update_soldier e d (soldier_id ed) (store w);
                 w1 = w\<lparr>store := st,
                        effects := effects w @ [StoreCall (UpdateSoldier d (soldier_id ed))]\<rparr>
             in case res of
                  Inl err \<Rightarrow>
                    log_error e ''SOLDIER_MGMT'' ''Failed to update soldier: ''
                      (JsError (''Database error: '' @ error_message err))
                      (w1\<lparr>effects := effects w1 @ [ConsoleError ''Supabase error:'',
                                                    ConsoleError ''Error updating soldier:'']\<rparr>)
                | Inr rows \<Rightarrow>
                    if None \<in> set (soldiers w1) then
                      log_error e ''SOLDIER_MGMT'' ''Failed to update soldier: '' undefined_id
                        (w1\<lparr>effects := effects w1 @ [ConsoleError ''Error updating soldier:'']\<rparr>)
                    else
                      w1\<lparr>soldiers :=
                           map (\<lambda>s. if map_option soldier_id s = Some (soldier_id ed)
                                     then (case rows of [] \<Rightarrow> None | r # _ \<Rightarrow> Some r) else s)
                             (soldiers w1),
                         editingSoldier := None,
                         newSoldier := empty_form,
                         soldierImage := None,
                         showAddForm := False,
                         systemLogs :=
                           add_log (local_log (client_now e) ''INFO'' ''SOLDIER_MGMT''
                                      (''Soldier updated: '' @ f_name f)
                                      (JObj [(''action'', JStr ''update''), (''soldierName'', JStr (f_name f))]))
                             (systemLogs w1)\<rparr>))
      else w)"

definition deleteSoldier :: "env \<Rightarrow> int \<Rightarrow> world \<Rightarrow> world" where
  "deleteSoldier e i w =
     (let (err, st) = supabase_delete_soldier e i (store w);
          w1 = w\<lparr>store := st, effects := effects w @ [StoreCall (DeleteSoldier i)]\<rparr>
      in case err of
           Some er \<Rightarrow>
             log_error e ''SOLDIER_MGMT'' ''Failed to delete soldier: '' (StoreError er)
               (w1\<lparr>effects := effects w1 @ [ConsoleError ''Error deleting soldier:'']\<rparr>)
         | None \<Rightarrow>
             if None \<in> set (soldiers w1) then
               log_error e ''SOLDIER_MGMT'' ''Failed to delete soldier: '' undefined_id
                 (w1\<lparr>effects := effects w1 @ [ConsoleError ''Error deleting soldier:'']\<rparr>)
             else
               (let soldier = find (\<lambda>s. map_option soldier_id s = Some i) (soldiers w1);
                    nm = (case soldier of Some (Some s) \<Rightarrow> JStr (name s) | _ \<Rightarrow> JNull);
                    shown = (case soldier of Some (Some s) \<Rightarrow> name s | _ \<Rightarrow> ''undefined'')
                in w1\<lparr>soldiers := filter (\<lambda>s. map_option soldier_id s \<noteq> Some i) (soldiers w1),
                      systemLogs :=
                        add_log (local_log (client_now e) ''WARN'' ''SOLDIER_MGMT''
                                   (''Soldier deleted: '' @ shown)
                                   (JObj [(''action'', JStr ''delete''), (''soldierName'', nm)]))
                          (systemLogs w1)\<rparr>))"

definition cancelForm :: "world \<Rightarrow> world" where
  "cancelForm w = w\<lparr>showAddForm := False, editingSoldier := None, newSoldier := empty_form,
                    soldierImage := None\<rparr>"

definition removeImage :: "world \<Rightarrow> world" where
  "removeImage w = w\<lparr>soldierImage := None\<rparr>"

definition loadSoldiers_try :: "env \<Rightarrow> world \<Rightarrow> thrown option \<times> world" where
  \<comment> \<open>the \<open>try\<close> block of \<open>loadSoldiers\<close>: the state it reaches and what it throws, if
      anything (\<open>if (error) throw error\<close>)\<close>
  "loadSoldiers_try e w =
     (let w1 = w\<lparr>effects := effects w @ [StoreCall SelectSoldiers]\<rparr> in
      case supabase_select_soldiers e (store w) of
        Inl err \<Rightarrow> (Some (StoreError err), w1)
      | Inr data \<Rightarrow> (None, w1\<lparr>soldiers := map Some data\<rparr>))"

definition loadSoldiers_promise :: "env \<Rightarrow> world \<Rightarrow> thrown option \<times> world" where
  \<comment> \<open>the whole function: what its caller gets thrown (\<open>None\<close>: the call returns
      normally) and the state afterwards; the \<open>catch\<close> block logs and does not rethrow\<close>
  "loadSoldiers_promise e w =
     (case loadSoldiers_try e w of
        (Some error, w1) \<Rightarrow>
          (None,
           log_error e ''SOLDIER_MGMT'' ''Failed to load soldiers: '' error
             (w1\<lparr>effects := effects w1 @ [ConsoleError ''Error loading soldiers:'']\<rparr>))
      | (None, w1) \<Rightarrow> (None, w1))"

definition loadSoldiers :: "env \<Rightarrow> world \<Rightarrow> world" where
  \<comment> \<open>the state after \<open>loadSoldiers()\<close>\<close>
  "loadSoldiers e w = snd (loadSoldiers_promise e w)"

definition analyzeHandLandmarks :: "env \<Rightarrow> nat \<Rightarrow> world \<Rightarrow> world" where
  \<comment> \<open>the argument is \<open>landmarks.length\<close>, all the handler reads of the landmarks; a
      timestamp inside a context is given by the clock value\<close>
  "analyzeHandLandmarks e n w =
     w\<lparr>systemLogs :=
         add_log (local_log (client_now e) ''INFO'' ''HAND_DETECTION''
                    (''Hand landmarks detected: '' @ string_of_nat n @ '' points'')
                    (JObj [(''landmarksCount'', JNum (of_nat n)),
                           (''timestamp'', JNum (of_nat (client_now e)))]))
           (systemLogs w)\<rparr>"

definition handleFaceDetected :: "env \<Rightarrow> rat option list option \<Rightarrow> world \<Rightarrow> world" where
  \<comment> \<open>a face is given by its \<open>score\<close>, if it has one; \<open>face.score || 0\<close>\<close>
  "handleFaceDetected e faces w =
     (case faces of
        None \<Rightarrow> w\<lparr>faceDetected := False\<rparr>
      | Some fs \<Rightarrow>
          if length fs > 0 then
            w\<lparr>faceDetected := True,
              effects := effects w @ [ConsoleLog ''Person detected! Face count:''],
              systemLogs :=
                add_log (local_log (client_now e) ''INFO'' ''FACE_DETECTION''
                           (''Person detected! Face count: '' @ string_of_nat (length fs))
                           (JObj [(''faceCount'', JNum (of_nat (length fs))),
                                  (''confidence'',
                                     JArr (map (\<lambda>sc. JNum (case sc of None \<Rightarrow> 0 | Some x \<Rightarrow> x)) fs)),
                                  (''timestamp'', JNum (of_nat (client_now e)))]))
                  (systemLogs w)\<rparr>
          else w\<lparr>faceDetected := False\<rparr>)"

definition startCamera :: "env \<Rightarrow> string option \<Rightarrow> world \<Rightarrow> world" where
  \<comment> \<open>the second argument is \<open>String(error)\<close> when \<open>getUserMedia\<close> rejects; otherwise the
      stream is attached, tracking and the socket are started and the flag is set\<close>
  "startCamera e denied w =
     (case denied of
        None \<Rightarrow>
          w\<lparr>isCameraOpen := True,
            systemLogs :=
              add_log (local_log (client_now e) ''INFO'' ''CAMERA'' ''Camera started successfully''
                         (JObj [(''action'', JStr ''start'')]))
                (systemLogs w)\<rparr>
      | Some err \<Rightarrow>
          w\<lparr>effects := effects w @ [ConsoleError ''Error accessing camera:''],
            systemLogs :=
              add_log (local_log (client_now e) ''ERROR'' ''CAMERA'' (''Camera error: '' @ err)
                         (JObj [(''error'', JStr err)]))
                (systemLogs w)\<rparr>)"

definition stopCamera :: "env \<Rightarrow> world \<Rightarrow> world" where
  "stopCamera e w =
     w\<lparr>isCameraOpen := False,
       systemLogs :=
         add_log (local_log (client_now e) ''INFO'' ''CAMERA'' ''Camera stopped''
                    (JObj [(''action'', JStr ''stop'')]))
           (systemLogs w)\<rparr>"

definition toggleCamera :: "env \<Rightarrow> string option \<Rightarrow> world \<Rightarrow> world" where
  "toggleCamera e denied w = (if isCameraOpen w then stopCamera e w else startCamera e denied w)"

definition initialize :: "env \<Rightarrow> world \<Rightarrow> world" where
  \<comment> \<open>the mount effect: the first log entry, \<open>loadSoldiers()\<close>, \<open>setLoading(false)\<close>\<close>
  "initialize e w =
     (let initialLog = local_log (client_now e) ''INFO'' ''SYSTEM''
                         ''Sentinel Command Center initialized''
                         (JObj [(''version'', JStr ''1.0.0'')])
      in (loadSoldiers e (w\<lparr>systemLogs := [initialLog]\<rparr>))\<lparr>loading := False\<rparr>)"

definition clearLogs :: "env \<Rightarrow> world \<Rightarrow> world" where
  "clearLogs e w =
     (let w1 = w\<lparr>systemLogs := []\<rparr>;
          clearLog = local_log (client_now e) ''INFO'' ''SYSTEM'' ''System logs cleared''
                       (JObj [(''action'', JStr ''clear'')])
      in w1\<lparr>systemLogs := [clearLog]\<rparr>)"

text \<open>
  An uploaded file is given by its MIME type, its size in bytes and the base64 text of
  its content; \<open>readAsDataURL\<close> yields \<open>data:<type>;base64,<text>\<close>.
\<close>

record upload =
  file_type :: string
  file_size :: nat
  file_base64 :: string

definition handleFileUpload :: "upload option \<Rightarrow> world \<Rightarrow> world" where
  "handleFileUpload file w =
     (case file of
        None \<Rightarrow> w
      | Some f \<Rightarrow>
          if \<not> startsWith (file_type f) ''image/'' then
            w\<lparr>effects := effects w @ [Alert ''Please select an image file'']\<rparr>
          else if file_size f > 5 * 1024 * 1024 then
            w\<lparr>effects := effects w @ [Alert ''Image size must be less than 5MB'']\<rparr>
          else
            w\<lparr>soldierImage := Some (''data:'' @ file_type f @ '';base64,'' @ file_base64 f)\<rparr>)"

definition capturePhoto :: "string \<Rightarrow> world \<Rightarrow> world" where
  \<comment> \<open>the capture button of \<open>handleCameraCapture\<close>: \<open>canvas.toDataURL('image/jpeg', 0.8)\<close>\<close>
  "capturePhoto b64 w = w\<lparr>soldierImage := Some (''data:image/jpeg;base64,'' @ b64)\<rparr>"

text \<open>
  The face comparison. What the request to the generative endpoint does is an input:
  \<open>fetch\<close> rejects, \<open>response.json()\<close> rejects, the answer cannot be walked down to
  \<open>candidates[0].content.parts[0].text\<close> without a \<open>TypeError\<close>, or the walk yields a
  text (or \<open>undefined\<close>).
\<close>

datatype gemini_outcome =
    FetchRejected
  | JsonRejected
  | NotTraversable
  | Answer "string option"

record candidate =
  cand_soldier :: soldier
  imageBase64 :: string

definition compareFacesWithGemini :: "gemini_outcome \<Rightarrow> candidate list \<Rightarrow> (thrown + soldier option) \<times> effect list" where
  \<comment> \<open>the whole body is inside \<open>try\<close>; the \<open>catch\<close> logs and returns \<open>null\<close>\<close>
  "compareFacesWithGemini g databaseImages =
     (case g of
        Answer txt \<Rightarrow>
          (let t = (case txt of None \<Rightarrow> ''-1'' | Some x \<Rightarrow> if trim x = [] then ''-1'' else trim x);
               matchIndex = parseInt t
           in case matchIndex of
                None \<Rightarrow> (Inr None, [Fetch ''generateContent''])
              | Some i \<Rightarrow>
                  if i \<ge> 0 \<and> i < int (length databaseImages)
                  then (Inr (Some (cand_soldier (databaseImages ! nat i))), [Fetch ''generateContent''])
                  else (Inr None, [Fetch ''generateContent'']))
      | _ \<Rightarrow> (Inr None, [Fetch ''generateContent'', ConsoleError ''Gemini AI comparison error:'']))"

definition has_image :: "soldier \<Rightarrow> bool" where
  \<comment> \<open>\<open>soldier.photo_data && soldier.photo_data.startsWith('data:image')\<close>\<close>
  "has_image s = (case photo_data s of None \<Rightarrow> False | Some ph \<Rightarrow> ph \<noteq> [] \<and> startsWith ph ''data:image'')"

record compare_env =
  refs_available :: bool
  context_available :: bool
  gemini :: gemini_outcome
  random :: rat

definition random_pick :: "rat \<Rightarrow> candidate list \<Rightarrow> soldier option" where
  \<comment> \<open>\<open>databaseImages[Math.floor(Math.random() * databaseImages.length)].soldier\<close>
      when the list is not empty; \<open>Math.random()\<close> lies in \<open>[0, 1)\<close>, which keeps the index
      in range\<close>
  "random_pick r databaseImages =
     (if length databaseImages > 0 then
        (let randomIndex = nat \<lfloor>r * of_nat (length databaseImages)\<rfloor>
         in if randomIndex < length databaseImages
            then Some (cand_soldier (databaseImages ! randomIndex)) else None)
      else None)"

definition handleCompareFaces :: "env \<Rightarrow> compare_env \<Rightarrow> world \<Rightarrow> world" where
  "handleCompareFaces e c w =
     (if \<not> refs_available c then w\<lparr>effects := effects w @ [Alert ''Camera not available'']\<rparr>
      else
        (let w1 = w\<lparr>isComparing := True, comparisonResult := None\<rparr> in
         if \<not> context_available c then
           (log_error e ''FACE_COMPARISON'' ''Face comparison failed: ''
              (JsError ''Could not get canvas context'')
              (w1\<lparr>effects := effects w1 @ [ConsoleError ''Face comparison error:'']\<rparr>))
             \<lparr>isComparing := False\<rparr>
         else if None \<in> set (soldiers w1) then
           (log_error e ''FACE_COMPARISON'' ''Face comparison failed: ''
              (TypeError ''Cannot read properties of undefined (reading 'photo_data')'')
              (w1\<lparr>effects := effects w1 @ [ConsoleError ''Face comparison error:'']\<rparr>))
             \<lparr>isComparing := False\<rparr>
         else
           (let soldiersWithImages = filter has_image (map the (soldiers w1)) in
            if length soldiersWithImages = 0 then
              w1\<lparr>effects := effects w1 @ [Alert ''No soldiers with images found in database''],
                 isComparing := False\<rparr>
            else
              (let databaseImages =
                     map (\<lambda>s. \<lparr>cand_soldier = s, imageBase64 = the (photo_data s)\<rparr>) soldiersWithImages;
                   (res, eff) = compareFacesWithGemini (gemini c) databaseImages;
                   w2 = w1\<lparr>effects := effects w1 @ eff\<rparr>;
                   (bestMatch, w3) =
                     (case res of
                        Inr m \<Rightarrow> (m, w2)
                      | Inl err \<Rightarrow>
                          (random_pick (random c) databaseImages,
                           w2\<lparr>effects := effects w2 @
                                 [ConsoleLog ''Gemini API not available, using fallback comparison'']\<rparr>))
               in (case bestMatch of
                     Some m \<Rightarrow>
                       w3\<lparr>comparisonResult := Some m,
                          systemLogs :=
                            add_log (local_log (client_now e) ''INFO'' ''FACE_COMPARISON''
                                       (''Face comparison completed. Best match: '' @ name m)
                                       (JObj [(''matchedSoldier'', JStr (name m)),
                                              (''totalCandidates'', JNum (of_nat (length soldiersWithImages)))]))
                              (systemLogs w3)\<rparr>
                   | None \<Rightarrow>
                       w3\<lparr>systemLogs :=
                            add_log (local_log (client_now e) ''WARN'' ''FACE_COMPARISON''
                                       ''Face comparison completed. No match found.''
                                       (JObj [(''totalCandidates'', JNum (of_nat (length soldiersWithImages)))]))
                              (systemLogs w3)\<rparr>)
                  \<lparr>isComparing := False\<rparr>))))"

text \<open>One step of the client: a handler, chosen by what happens in the page.\<close>

datatype event =
    OnHandLandmarks nat
  | OnFaces "rat option list option"
  | OnToggleCamera "string option"
  | OnMount
  | OnClearLogs
  | OnSetName string
  | OnSetPosition string
  | OnSetSex string
  | OnSetAge string
  | OnSetStatus string
  | OnFileUpload "upload option"
  | OnCapturePhoto string
  | OnRemoveImage
  | OnSubmit
  | OnEditSoldier soldier
  | OnDeleteSoldier int
  | OnCancelForm
  | OnCompareFaces compare_env
  | OnLoadSoldiers

fun step :: "env \<Rightarrow> event \<Rightarrow> world \<Rightarrow> world" where
  "step e (OnHandLandmarks n) w = analyzeHandLandmarks e n w"
| "step e (OnFaces fs) w = handleFaceDetected e fs w"
| "step e (OnToggleCamera denied) w = toggleCamera e denied w"
| "step e OnMount w = initialize e w"
| "step e OnClearLogs w = clearLogs e w"
| "step e (OnSetName v) w = w\<lparr>newSoldier := (newSoldier w)\<lparr>f_name := v\<rparr>\<rparr>"
| "step e (OnSetPosition v) w = w\<lparr>newSoldier := (newSoldier w)\<lparr>f_position := v\<rparr>\<rparr>"
| "step e (OnSetSex v) w = w\<lparr>newSoldier := (newSoldier w)\<lparr>f_sex := v\<rparr>\<rparr>"
| "step e (OnSetAge v) w = w\<lparr>newSoldier := (newSoldier w)\<lparr>f_age := v\<rparr>\<rparr>"
| "step e (OnSetStatus v) w = w\<lparr>newSoldier := (newSoldier w)\<lparr>f_status := v\<rparr>\<rparr>"
| "step e (OnFileUpload f) w = handleFileUpload f w"
| "step e (OnCapturePhoto b) w = capturePhoto b w"
| "step e OnRemoveImage w = removeImage w"
| "step e OnSubmit w = (if editingSoldier w = None then addSoldier e w else updateSoldier e w)"
| "step e (OnEditSoldier s) w = editSoldier s w"
| "step e (OnDeleteSoldier i) w = deleteSoldier e i w"
| "step e OnCancelForm w = cancelForm w"
| "step e (OnCompareFaces c) w = handleCompareFaces e c w"
| "step e OnLoadSoldiers w = loadSoldiers e w"

fun run :: "(env \<times> event) list \<Rightarrow> world \<Rightarrow> world" where
  "run [] w = w"
| "run ((e, ev) # rest) w = run rest (step e ev w)"

section \<open>The client variant that persists its log\<close>

text \<open>
  A second version of \<open>App.tsx\<close> (kept in the repository next to the first table
  definition) writes every log entry to the \<open>system_logs\<close> table through
  \<open>saveSystemLog\<close> and mirrors the table in \<open>systemLogs\<close>. Its three functions below are
  the only places where that version sets \<open>systemLogs\<close>.
\<close>

definition saveSystemLog :: "env \<Rightarrow> logData \<Rightarrow> world \<Rightarrow> world" where
  "saveSystemLog e l w =
     (let w1 = w\<lparr>effects := effects w @ [StoreCall (InsertLog l)]\<rparr> in
      if connected e then
        (case insert_log (server_now e) l (store w1) of
           (Inl err, st) \<Rightarrow>
             w1\<lparr>store := st, effects := effects w1 @ [ConsoleError ''Error saving system log:'']\<rparr>
         | (Inr row, st) \<Rightarrow>
             w1\<lparr>store := st, systemLogs := add_log row (systemLogs w1)\<rparr>)
      else w1\<lparr>effects := effects w1 @ [ConsoleError ''Error saving system log:'']\<rparr>)"

definition loadSystemLogs :: "env \<Rightarrow> world \<Rightarrow> world" where
  "loadSystemLogs e w =
     (let w1 = w\<lparr>effects := effects w @ [StoreCall (SelectLogs 100)]\<rparr> in
      if connected e then w1\<lparr>systemLogs := select_logs 100 (store w1)\<rparr>
      else w1\<lparr>effects := effects w1 @ [ConsoleError ''Error loading system logs:'']\<rparr>)"

definition clearLogs_persisted :: "env \<Rightarrow> env \<Rightarrow> world \<Rightarrow> world" where
  \<comment> \<open>the first argument is read by the \<open>DELETE\<close>, the second by the \<open>saveSystemLog\<close> after it\<close>
  "clearLogs_persisted e1 e2 w =
     (let w1 = w\<lparr>effects := effects w @ [StoreCall DeleteLogs]\<rparr> in
      if connected e1 then
        saveSystemLog e2
          \<lparr>new_level = ''INFO'', new_tag = Some ''SYSTEM'', new_message = ''System logs cleared'',
           new_context = JObj [(''action'', JStr ''clear'')], new_created_by = Some ''user''\<rparr>
          (w1\<lparr>store := delete_logs_neq 0 (store w1), systemLogs := []\<rparr>)
      else w1\<lparr>effects := effects w1 @ [ConsoleError ''Error clearing logs:'']\<rparr>)"

datatype log_event =
    OnSaveSystemLog logData
  | OnLoadSystemLogs
  | OnClearLogsPersisted env

fun log_step :: "env \<Rightarrow> log_event \<Rightarrow> world \<Rightarrow> world" where
  "log_step e (OnSaveSystemLog l) w = saveSystemLog e l w"
| "log_step e OnLoadSystemLogs w = loadSystemLogs e w"
| "log_step e (OnClearLogsPersisted e2) w = clearLogs_persisted e e2 w"

fun log_run :: "(env \<times> log_event) list \<Rightarrow> world \<Rightarrow> world" where
  "log_run [] w = w"
| "log_run ((e, ev) # rest) w = log_run rest (log_step e ev w)"

section \<open>What a written record's \<open>photo_data\<close> holds\<close>




section \<open>Example states\<close>

definition sharp_s_upper :: "char \<Rightarrow> string" where
  \<comment> \<open>a host that turns the sharp s (code 223) into \<open>SS\<close> and keeps the rest\<close>
  "sharp_s_upper c = (if (of_char c :: nat) = 223 then ''SS'' else [c])"

definition e0 :: env where
  "e0 = \<lparr>client_now = 1000, server_now = 2000, connected = True, host_upper = sharp_s_upper\<rparr>"

definition offline :: env where
  "offline = \<lparr>client_now = 1000, server_now = 2000, connected = False,
              host_upper = sharp_s_upper\<rparr>"

definition same_instant :: env where
  \<comment> \<open>the store's clock reads 10, the time \<open>john\<close> was last written\<close>
  "same_instant = \<lparr>client_now = 1000, server_now = 10, connected = True,
                   host_upper = sharp_s_upper\<rparr>"

definition clock_set_back :: env where
  "clock_set_back = \<lparr>client_now = 1000, server_now = 5, connected = True,
                     host_upper = sharp_s_upper\<rparr>"

definition john_doe_form :: form where
  "john_doe_form = \<lparr>f_name = ''John Doe'', f_position = ''Sergeant'', f_sex = ''Male'',
                     f_age = ''28'', f_status = ''Active''\<rparr>"

definition john :: soldier where
  "john = \<lparr>soldier_id = 1, name = ''John Doe'', position = ''Sergeant'', sex = ''Male'', age = 28,
           status = ''Active'', photo_data = Some ''JO'', created_at = 10, updated_at = 10\<rparr>"

definition jane :: soldier where
  "jane = \<lparr>soldier_id = 2, name = ''Jane Smith'', position = ''Lieutenant'', sex = ''Female'',
           age = 32, status = ''Active'', photo_data = Some ''data:image/jpeg;base64,AAAA'',
           created_at = 20, updated_at = 20\<rparr>"

definition roster_db :: db where
  "roster_db = \<lparr>ddl = Part000, soldiers_tbl = [john, jane], soldiers_seq = 3,
                system_logs_tbl = [], system_logs_seq = 1\<rparr>"

definition roster_world :: world where
  "roster_world = (initial_world roster_db)\<lparr>soldiers := [Some jane, Some john]\<rparr>"

definition stale_world :: world where
  \<comment> \<open>the roster on the page lags behind the table\<close>
  "stale_world = (initial_world roster_db)\<lparr>soldiers := [Some john]\<rparr>"

definition editing_world :: world where
  \<comment> \<open>\<open>john\<close> is being edited: the form holds his data, with a new position and age\<close>
  "editing_world =
     roster_world\<lparr>editingSoldier := Some john,
                   newSoldier := \<lparr>f_name = ''John Doe'', f_position = ''Captain'', f_sex = ''Male'',
                                  f_age = ''29'', f_status = ''Active''\<rparr>,
                   showAddForm := True\<rparr>"

definition big_image :: string where
  "big_image = ''data:image/png;base64,'' @ replicate (1024 * 1024) (CHR ''A'')"

definition big_image_world :: world where
  "big_image_world =
     (initial_world (empty_db Part000))\<lparr>newSoldier := john_doe_form, soldierImage := Some big_image\<rparr>"

definition camera_ok :: "gemini_outcome \<Rightarrow> compare_env" where
  "camera_ok g = \<lparr>refs_available = True, context_available = True, gemini = g, random = 0\<rparr>"

definition promotion :: soldierData where
  "promotion = \<lparr>new_name = ''John Doe'', new_position = ''Captain'', new_sex = ''Male'',
                new_age = Some 29, new_status = ''Active'', new_photo_data = ''JO''\<rparr>"

definition seed_logs :: "system_log list" where
  \<comment> \<open>the first two sample rows of \<open>migration_create_system_logs_table.sql\<close>\<close>
  "seed_logs =
     [\<lparr>log_id = 1, log_created_at = 5, level = ''INFO'', tag = Some ''SYSTEM'',
       message = ''Sentinel Command Center initialized'',
       log_context = JObj [(''version'', JStr ''1.0.0'')], created_by = Some ''system''\<rparr>,
      \<lparr>log_id = 2, log_created_at = 6, level = ''INFO'', tag = Some ''CAMERA'',
       message = ''Camera started successfully'',
       log_context = JObj [(''action'', JStr ''start'')], created_by = Some ''system''\<rparr>]"

definition logged_world :: world where
  "logged_world =
     (initial_world (roster_db\<lparr>system_logs_tbl := seed_logs, system_logs_seq := 3\<rparr>))
       \<lparr>systemLogs := rev seed_logs\<rparr>"

section \<open>Properties of the store\<close>

lemma set_columns_age_migration:
  assumes "set_columns Migration (d\<lparr>new_age := Some 30\<rparr>) r = Inr r0"
  shows "(\<exists>r'. set_columns Migration (d\<lparr>new_age := Some a\<rparr>) r = Inr r') \<longleftrightarrow> 0 < a \<and> a < 120"
  using assms
  by (auto simp: set_columns_def integer_ok_def split: option.splits if_splits)

lemma set_columns_age_part000:
  assumes "set_columns Part000 (d\<lparr>new_age := Some 30\<rparr>) r = Inr r0"
  shows "(\<exists>r'. set_columns Part000 (d\<lparr>new_age := Some a\<rparr>) r = Inr r') \<longleftrightarrow> 0 < a \<and> a \<le> 2147483647"
  using assms
  by (auto simp: set_columns_def integer_ok_def split: option.splits if_splits)

text \<open>
  C3 (the store accepts an age exactly when it lies strictly between 0 and 120): under the
  table definition of \<open>migration_create_soldiers_table.sql\<close> this is what the check does
  (\<open>set_columns_age_migration\<close>). The second table definition only checks \<open>age > 0\<close>:
  a row with age 120 is stored.
\<close>

theorem part000_accepts_age_120:
  "insert_soldier 7
     \<lparr>new_name = ''John Doe'', new_position = ''Sergeant'', new_sex = ''Male'',
      new_age = Some 120, new_status = ''Active'', new_photo_data = ''JO''\<rparr>
     (empty_db Part000)
   = (Inr \<lparr>soldier_id = 1, name = ''John Doe'', position = ''Sergeant'', sex = ''Male'',
            age = 120, status = ''Active'', photo_data = Some ''JO'',
            created_at = 7, updated_at = 7\<rparr>,
      \<lparr>ddl = Part000,
       soldiers_tbl = [\<lparr>soldier_id = 1, name = ''John Doe'', position = ''Sergeant'',
                        sex = ''Male'', age = 120, status = ''Active'',
                        photo_data = Some ''JO'', created_at = 7, updated_at = 7\<rparr>],
       soldiers_seq = 2, system_logs_tbl = [], system_logs_seq = 1\<rparr>)"
  by (simp add: insert_soldier_def empty_db_def set_columns_def integer_ok_def
      sex_check_def status_check_def)


section \<open>Properties of the client\<close>

lemma log_error_frame [simp]:
  "soldiers (log_error e tg p t w) = soldiers w"
  "store (log_error e tg p t w) = store w"
  "effects (log_error e tg p t w) = effects w"
  by (simp_all add: log_error_def)

lemma loadSoldiers_eq:
  "loadSoldiers e w =
     (let w1 = w\<lparr>effects := effects w @ [StoreCall SelectSoldiers]\<rparr> in
      case supabase_select_soldiers e (store w) of
        Inl err \<Rightarrow>
          log_error e ''SOLDIER_MGMT'' ''Failed to load soldiers: '' (StoreError err)
            (w1\<lparr>effects := effects w1 @ [ConsoleError ''Error loading soldiers:'']\<rparr>)
      | Inr data \<Rightarrow> w1\<lparr>soldiers := map Some data\<rparr>)"
  by (simp add: loadSoldiers_def loadSoldiers_promise_def loadSoldiers_try_def Let_def
      split: sum.splits)

lemma photoData_john_doe: "photoData up ''John Doe'' None = Some ''JO''"
  by (simp add: photoData_def toUpperCase_def toUpperCase_char_def substring_def isAscii_def)

text \<open>
  C1 (a soldier created with the name \<open>John Doe\<close> and no image gets \<open>photo_data = JD\<close>):
  \<open>addSoldier\<close> takes the first two characters of the name, not the initials of its words,
  so the row it stores holds \<open>JO\<close>, under either table definition.
\<close>

theorem john_doe_photo_data_is_JO:
  "soldiers_tbl (store (addSoldier e0 ((initial_world (empty_db Part000))\<lparr>newSoldier := john_doe_form\<rparr>)))
     = [\<lparr>soldier_id = 1, name = ''John Doe'', position = ''Sergeant'', sex = ''Male'', age = 28,
          status = ''Active'', photo_data = Some ''JO'', created_at = 2000, updated_at = 2000\<rparr>]
   \<and> soldiers_tbl (store (addSoldier e0 ((initial_world (empty_db Migration))\<lparr>newSoldier := john_doe_form\<rparr>)))
     = [\<lparr>soldier_id = 1, name = ''John Doe'', position = ''Sergeant'', sex = ''Male'', age = 28,
          status = ''Active'', photo_data = Some ''JO'', created_at = 2000, updated_at = 2000\<rparr>]"
  by code_simp


subsection \<open>The log mirror holds at most 100 entries\<close>

lemma add_log_length: "length (add_log l prev) \<le> 100"
  by (simp add: add_log_def)

lemma log_error_logs: "length (systemLogs (log_error e tg p t w)) \<le> 100"
  by (simp add: log_error_def add_log_length)

lemma addSoldier_logs:
  "systemLogs (addSoldier e w) = systemLogs w \<or> length (systemLogs (addSoldier e w)) \<le> 100"
  by (auto simp: addSoldier_def Let_def add_log_length log_error_logs
      split: option.splits sum.splits prod.splits)

lemma updateSoldier_logs:
  "systemLogs (updateSoldier e w) = systemLogs w \<or> length (systemLogs (updateSoldier e w)) \<le> 100"
  by (auto simp: updateSoldier_def Let_def add_log_length log_error_logs
      split: option.splits sum.splits prod.splits)

lemma deleteSoldier_logs: "length (systemLogs (deleteSoldier e i w)) \<le> 100"
  by (auto simp: deleteSoldier_def Let_def add_log_length log_error_logs
      split: option.splits sum.splits prod.splits)

lemma loadSoldiers_logs:
  "systemLogs (loadSoldiers e w) = systemLogs w \<or> length (systemLogs (loadSoldiers e w)) \<le> 100"
  by (auto simp: loadSoldiers_eq Let_def add_log_length log_error_logs
      split: option.splits sum.splits prod.splits)

lemma initialize_logs: "length (systemLogs (initialize e w)) \<le> 100"
  using loadSoldiers_logs[of e "w\<lparr>systemLogs := [local_log (client_now e) ''INFO'' ''SYSTEM''
                         ''Sentinel Command Center initialized''
                         (JObj [(''version'', JStr ''1.0.0'')])]\<rparr>"]
  by (auto simp: initialize_def Let_def)

lemma handleCompareFaces_logs:
  "systemLogs (handleCompareFaces e c w) = systemLogs w
   \<or> length (systemLogs (handleCompareFaces e c w)) \<le> 100"
  by (auto simp: handleCompareFaces_def Let_def add_log_length log_error_logs
      split: option.splits sum.splits prod.splits)

lemma step_logs:
  "systemLogs (step e ev w) = systemLogs w \<or> length (systemLogs (step e ev w)) \<le> 100"
proof (cases ev)
  case OnSubmit
  then show ?thesis using addSoldier_logs updateSoldier_logs by simp
next
  case (OnCompareFaces c)
  then show ?thesis using handleCompareFaces_logs by simp
next
  case OnLoadSoldiers
  then show ?thesis using loadSoldiers_logs by simp
next
  case OnMount
  then show ?thesis using initialize_logs by simp
next
  case (OnDeleteSoldier i)
  then show ?thesis using deleteSoldier_logs by simp
qed (auto simp: analyzeHandLandmarks_def handleFaceDetected_def toggleCamera_def startCamera_def
      stopCamera_def clearLogs_def handleFileUpload_def capturePhoto_def removeImage_def
      editSoldier_def cancelForm_def add_log_length Let_def split: option.splits)

lemma run_logs:
  "length (systemLogs w) \<le> 100 \<Longrightarrow> length (systemLogs (run evs w)) \<le> 100"
proof (induction evs arbitrary: w)
  case Nil
  then show ?case by simp
next
  case (Cons a evs)
  obtain e ev where a: "a = (e, ev)" by (cases a)
  from step_logs[of e ev w] Cons.prems have "length (systemLogs (step e ev w)) \<le> 100" by auto
  then show ?case using Cons.IH a by simp
qed

lemma select_logs_length: "length (select_logs n s) \<le> n"
  by (simp add: select_logs_def)

lemma saveSystemLog_logs:
  "systemLogs (saveSystemLog e l w) = systemLogs w \<or> length (systemLogs (saveSystemLog e l w)) \<le> 100"
  by (auto simp: saveSystemLog_def Let_def add_log_length split: prod.splits sum.splits)

lemma log_step_logs:
  "systemLogs (log_step e ev w) = systemLogs w \<or> length (systemLogs (log_step e ev w)) \<le> 100"
proof (cases ev)
  case (OnSaveSystemLog l)
  then show ?thesis using saveSystemLog_logs by simp
next
  case OnLoadSystemLogs
  then show ?thesis by (simp add: loadSystemLogs_def Let_def select_logs_length)
next
  case (OnClearLogsPersisted e2)
  let ?l = "\<lparr>new_level = ''INFO'', new_tag = Some ''SYSTEM'', new_message = ''System logs cleared'',
           new_context = JObj [(''action'', JStr ''clear'')], new_created_by = Some ''user''\<rparr>"
  let ?w = "w\<lparr>effects := effects w @ [StoreCall DeleteLogs],
             store := delete_logs_neq 0 (store w), systemLogs := []\<rparr>"
  from saveSystemLog_logs[of e2 ?l ?w]
  have "length (systemLogs (saveSystemLog e2 ?l ?w)) \<le> 100" by auto
  then show ?thesis using OnClearLogsPersisted
    by (simp add: clearLogs_persisted_def Let_def)
qed

lemma log_run_logs:
  "length (systemLogs w) \<le> 100 \<Longrightarrow> length (systemLogs (log_run evs w)) \<le> 100"
proof (induction evs arbitrary: w)
  case Nil
  then show ?case by simp
next
  case (Cons a evs)
  obtain e ev where a: "a = (e, ev)" by (cases a)
  from log_step_logs[of e ev w] Cons.prems have "length (systemLogs (log_step e ev w)) \<le> 100"
    by auto
  then show ?case using Cons.IH a by simp
qed

text \<open>
  C10 (the in-memory mirror of the system log never holds more than 100 entries): every
  handler that writes the log either prepends one entry to the first 99 of the previous
  list, resets the list to one entry, or reloads at most 100 rows. So after any sequence
  of handlers, started from the initial state, the list has at most 100 entries, in the
  client of \<open>src/App.tsx\<close> and in the variant that persists its log.
\<close>

theorem system_logs_at_most_100:
  "length (systemLogs (run evs (initial_world s))) \<le> 100
   \<and> length (systemLogs (log_run levs (initial_world s))) \<le> 100"
  by (simp add: run_logs log_run_logs initial_world_def)


subsection \<open>Listing the roster\<close>

lemma select_soldiers_sorted:
  "sorted_wrt (\<lambda>a b. created_at a \<ge> created_at b) (select_soldiers s)"
proof -
  have "sorted (map created_at (sort_key created_at (soldiers_tbl s)))"
    by (rule sorted_sort_key)
  then have "sorted_wrt (\<lambda>a b. created_at a \<le> created_at b) (sort_key created_at (soldiers_tbl s))"
    by (simp add: sorted_map)
  then show ?thesis
    by (simp add: select_soldiers_def sorted_wrt_rev)
qed

lemma select_soldiers_all: "mset (select_soldiers s) = mset (soldiers_tbl s)"
  by (simp add: select_soldiers_def)

lemma loadSoldiers_never_throws: "fst (loadSoldiers_promise e w) = None"
  by (simp add: loadSoldiers_promise_def split: prod.splits option.splits)

text \<open>
  C8 as stated (\<open>list()\<close> returns all soldier records, newest first, and signals a store
  error to its caller when the connection fails) fails in its last part: \<open>loadSoldiers\<close>
  catches the error of the query itself and returns normally. With the store out of
  reach nothing is thrown to the caller; the roster on the page stays as it was and the
  log gets one entry.
\<close>

theorem load_failure_is_not_signalled:
  "fst (loadSoldiers_promise offline stale_world) = None
   \<and> soldiers (snd (loadSoldiers_promise offline stale_world)) = [Some john]
   \<and> map level (systemLogs (snd (loadSoldiers_promise offline stale_world))) = [''ERROR'']
   \<and> map message (systemLogs (snd (loadSoldiers_promise offline stale_world)))
       = [''Failed to load soldiers: [object Object]'']"
  by (simp add: loadSoldiers_promise_def loadSoldiers_try_def supabase_select_soldiers_def
      offline_def stale_world_def initial_world_def log_error_def add_log_def local_log_def
      string_of_thrown_def Let_def)

text \<open>
  C8, amended: when the request reaches the store, \<open>loadSoldiers\<close> sets the roster to all
  rows of the table (the same rows, as a multiset: no pagination) in descending order of
  \<open>created_at\<close>. When the connection fails, \<open>loadSoldiers\<close> catches the error of the
  query: it leaves the roster and the store as they were, writes the message to the
  console and an \<open>ERROR\<close> entry \<open>Failed to load soldiers: [object Object]\<close> to the log. In
  both cases it returns normally: no error reaches its caller.
\<close>

theorem loadSoldiers_lists_or_logs:
  "fst (loadSoldiers_promise e w) = None
   \<and> snd (loadSoldiers_promise e w) = loadSoldiers e w
   \<and> (connected e \<longrightarrow>
        (\<exists>rows. soldiers (loadSoldiers e w) = map Some rows
               \<and> mset rows = mset (soldiers_tbl (store w))
               \<and> sorted_wrt (\<lambda>a b. created_at a \<ge> created_at b) rows)
        \<and> systemLogs (loadSoldiers e w) = systemLogs w)
   \<and> (\<not> connected e \<longrightarrow>
        soldiers (loadSoldiers e w) = soldiers w
      \<and> store (loadSoldiers e w) = store w
      \<and> effects (loadSoldiers e w)
          = effects w @ [StoreCall SelectSoldiers, ConsoleError ''Error loading soldiers:'']
      \<and> systemLogs (loadSoldiers e w) =
          add_log (local_log (client_now e) ''ERROR'' ''SOLDIER_MGMT''
                     ''Failed to load soldiers: [object Object]''
                     (JObj [(''error'', JStr ''[object Object]'')]))
            (systemLogs w))"
proof -
  have on: "connected e \<Longrightarrow>
        (\<exists>rows. soldiers (loadSoldiers e w) = map Some rows
               \<and> mset rows = mset (soldiers_tbl (store w))
               \<and> sorted_wrt (\<lambda>a b. created_at a \<ge> created_at b) rows)
        \<and> systemLogs (loadSoldiers e w) = systemLogs w"
  proof -
    assume c: "connected e"
    have "soldiers (loadSoldiers e w) = map Some (select_soldiers (store w))"
      "systemLogs (loadSoldiers e w) = systemLogs w"
      using c by (simp_all add: loadSoldiers_eq supabase_select_soldiers_def Let_def)
    then show ?thesis
      using select_soldiers_all[of "store w"] select_soldiers_sorted[of "store w"] by blast
  qed
  have off: "\<not> connected e \<Longrightarrow>
        soldiers (loadSoldiers e w) = soldiers w
      \<and> store (loadSoldiers e w) = store w
      \<and> effects (loadSoldiers e w)
          = effects w @ [StoreCall SelectSoldiers, ConsoleError ''Error loading soldiers:'']
      \<and> systemLogs (loadSoldiers e w) =
          add_log (local_log (client_now e) ''ERROR'' ''SOLDIER_MGMT''
                     ''Failed to load soldiers: [object Object]''
                     (JObj [(''error'', JStr ''[object Object]'')]))
            (systemLogs w)"
    by (simp add: loadSoldiers_eq supabase_select_soldiers_def Let_def log_error_def
        string_of_thrown_def)
  show ?thesis
    using on off loadSoldiers_never_throws[of e w] by (simp add: loadSoldiers_def)
qed

theorem loadSoldiers_lists_or_logs_witness:
  "connected e0
   \<and> soldiers stale_world = [Some john]
   \<and> soldiers (loadSoldiers e0 stale_world) = [Some jane, Some john]
   \<and> fst (loadSoldiers_promise e0 stale_world) = None
   \<and> \<not> connected offline
   \<and> soldiers (loadSoldiers offline stale_world) = [Some john]
   \<and> map message (systemLogs (loadSoldiers offline stale_world))
       = [''Failed to load soldiers: [object Object]'']
   \<and> fst (loadSoldiers_promise offline stale_world) = None"
proof -
  have sel: "select_soldiers roster_db = [jane, john]"
    by (simp add: select_soldiers_def roster_db_def john_def jane_def)
  have st: "store stale_world = roster_db" "soldiers stale_world = [Some john]"
    "systemLogs stale_world = []"
    by (simp_all add: stale_world_def initial_world_def)
  have on: "connected e0" by (simp add: e0_def)
  have off: "\<not> connected offline" by (simp add: offline_def)
  have loaded: "soldiers (loadSoldiers e0 stale_world) = [Some jane, Some john]"
    using on by (simp add: loadSoldiers_eq supabase_select_soldiers_def Let_def st sel)
  show ?thesis
    using loadSoldiers_lists_or_logs[of e0 stale_world]
      loadSoldiers_lists_or_logs[of offline stale_world] on off loaded
    by (simp add: st add_log_def local_log_def)
qed


subsection \<open>Deleting a soldier\<close>

text \<open>
  C7 (after a successful \<open>delete(id)\<close>, \<open>list()\<close> never includes a record with that id):
  when the delete request and the following load both reach the store, neither the rows
  the query returns nor the roster \<open>loadSoldiers\<close> sets contain a record with the id.
\<close>

theorem delete_then_list_excludes_id:
  assumes "connected e" and "connected e'"
  shows "Some i \<notin> map_option soldier_id ` set (soldiers (loadSoldiers e' (deleteSoldier e i w)))
       \<and> i \<notin> soldier_id ` set (select_soldiers (store (deleteSoldier e i w)))"
proof -
  have st: "soldiers_tbl (store (deleteSoldier e i w))
            = filter (\<lambda>r. soldier_id r \<noteq> i) (soldiers_tbl (store w))"
    using assms(1)
    by (simp add: deleteSoldier_def supabase_delete_soldier_def delete_soldier_def Let_def)
  have "set (select_soldiers (store (deleteSoldier e i w)))
        = set (soldiers_tbl (store (deleteSoldier e i w)))"
    by (simp add: select_soldiers_def)
  then have sel: "i \<notin> soldier_id ` set (select_soldiers (store (deleteSoldier e i w)))"
    using st by auto
  have "soldiers (loadSoldiers e' (deleteSoldier e i w))
        = map Some (select_soldiers (store (deleteSoldier e i w)))"
    using assms(2) by (simp add: loadSoldiers_eq supabase_select_soldiers_def Let_def)
  then show ?thesis using sel by (auto simp: image_iff)
qed

theorem delete_then_list_excludes_id_witness:
  "connected e0
   \<and> soldiers (loadSoldiers e0 (deleteSoldier e0 1 roster_world)) = [Some jane]
   \<and> Some 1 \<notin> map_option soldier_id ` set (soldiers (loadSoldiers e0 (deleteSoldier e0 1 roster_world)))
   \<and> 1 \<notin> soldier_id ` set (select_soldiers (store (deleteSoldier e0 1 roster_world)))"
proof -
  have on: "connected e0" by (simp add: e0_def)
  have res: "soldiers (loadSoldiers e0 (deleteSoldier e0 1 roster_world)) = [Some jane]"
    by (simp add: loadSoldiers_eq deleteSoldier_def supabase_delete_soldier_def delete_soldier_def
        supabase_select_soldiers_def select_soldiers_def roster_world_def roster_db_def
        initial_world_def e0_def john_def jane_def Let_def add_log_def local_log_def)
  show ?thesis
    using delete_then_list_excludes_id[OF on on, of 1 roster_world] on res by simp
qed


subsection \<open>Updating a soldier\<close>

lemma set_columns_frame:
  assumes "set_columns sch d r = Inr r'"
  shows "soldier_id r' = soldier_id r" "created_at r' = created_at r" "updated_at r' = updated_at r"
  using assms
  by (auto simp: set_columns_def split: option.splits if_splits)


lemma update_rows_rel:
  assumes "update_rows sch now d i tbl = Inr (tbl', upd)"
  shows "list_all2 (\<lambda>old new.
           if soldier_id old = i
           then (\<exists>r'. set_columns sch d old = Inr r' \<and> new = update_updated_at_column now r')
                \<and> new \<in> set upd
           else new = old) tbl tbl'"
    (is "list_all2 (?P upd) tbl tbl'")
  using assms
proof (induction tbl arbitrary: tbl' upd)
  case Nil
  then show ?case by simp
next
  case (Cons r rs)
  show ?case
  proof (cases "soldier_id r = i")
    case True
    with Cons.prems obtain r' t u where
      r': "update_row sch now d r = Inr r'" and rec: "update_rows sch now d i rs = Inr (t, u)"
      and res: "tbl' = r' # t" "upd = r' # u"
      by (auto split: sum.splits prod.splits)
    have tl: "list_all2 (?P upd) rs t"
      using Cons.IH[OF rec] unfolding res(2) by (rule list_all2_mono) (auto split: if_splits)
    have "\<exists>x. set_columns sch d r = Inr x \<and> r' = update_updated_at_column now x"
      using r' by (auto simp: update_row_def split: sum.splits)
    then have hd: "?P upd r r'" using True res(2) by simp
    from hd tl show ?thesis unfolding res(1) by (rule list.rel_intros(2))
  next
    case False
    with Cons.prems obtain t u where
      rec: "update_rows sch now d i rs = Inr (t, u)" and res: "tbl' = r # t" "upd = u"
      by (auto split: sum.splits prod.splits)
    have tl: "list_all2 (?P upd) rs t" using Cons.IH[OF rec] unfolding res(2) .
    have hd: "?P upd r r" using False by simp
    from hd tl show ?thesis unfolding res(1) by (rule list.rel_intros(2))
  qed
qed

lemma supabase_update_cases:
  "snd (supabase_update_soldier e d i s) = s
   \<or> (\<exists>tbl upd. update_rows (ddl s) (server_now e) d i (soldiers_tbl s) = Inr (tbl, upd)
         \<and> fst (supabase_update_soldier e d i s) = Inr upd
         \<and> snd (supabase_update_soldier e d i s) = s\<lparr>soldiers_tbl := tbl\<rparr>)"
  by (auto simp: supabase_update_soldier_def update_soldier_def split: sum.splits prod.splits)

lemma supabase_update_success:
  assumes "fst (supabase_update_soldier e d i s) = Inr upd"
  shows "update_rows (ddl s) (server_now e) d i (soldiers_tbl s)
           = Inr (soldiers_tbl (snd (supabase_update_soldier e d i s)), upd)"
  using assms
  by (auto simp: supabase_update_soldier_def update_soldier_def
      split: if_splits sum.splits prod.splits)

lemma updateSoldier_store_cases:
  "store (updateSoldier e w) = store w
   \<or> (\<exists>ed ph. editingSoldier w = Some ed
         \<and> f_name (newSoldier w) \<noteq> []
         \<and> photoData (host_upper e) (f_name (newSoldier w)) (soldierImage w) = Some ph
         \<and> store (updateSoldier e w)
             = snd (supabase_update_soldier e (form_data (newSoldier w) ph) (soldier_id ed) (store w)))"
proof (cases "editingSoldier w")
  case None
  then show ?thesis by (simp add: updateSoldier_def Let_def)
next
  case (Some ed)
  show ?thesis
  proof (cases "f_name (newSoldier w) \<noteq> [] \<and> f_position (newSoldier w) \<noteq> [] \<and> f_age (newSoldier w) \<noteq> []")
    case False
    then show ?thesis using Some by (auto simp: updateSoldier_def Let_def)
  next
    case form: True
    show ?thesis
    proof (cases "photoData (host_upper e) (f_name (newSoldier w)) (soldierImage w)")
      case None
      then show ?thesis using form Some by (simp add: updateSoldier_def Let_def)
    next
      case ph: (Some ph)
      have "store (updateSoldier e w)
            = snd (supabase_update_soldier e (form_data (newSoldier w) ph) (soldier_id ed) (store w))"
        using form Some ph
        by (simp add: updateSoldier_def Let_def split: prod.splits sum.splits)
      then show ?thesis using form Some ph by simp
    qed
  qed
qed

lemma updateSoldier_rows:
  "soldiers_tbl (store (updateSoldier e w)) = soldiers_tbl (store w)
   \<or> (\<exists>ed ph upd. editingSoldier w = Some ed
         \<and> f_name (newSoldier w) \<noteq> []
         \<and> photoData (host_upper e) (f_name (newSoldier w)) (soldierImage w) = Some ph
         \<and> update_rows (ddl (store w)) (server_now e) (form_data (newSoldier w) ph)
              (soldier_id ed) (soldiers_tbl (store w))
             = Inr (soldiers_tbl (store (updateSoldier e w)), upd))"
proof -
  from updateSoldier_store_cases[of e w] show ?thesis
  proof
    assume "store (updateSoldier e w) = store w"
    then show ?thesis by simp
  next
    assume "\<exists>ed ph. editingSoldier w = Some ed
         \<and> f_name (newSoldier w) \<noteq> []
         \<and> photoData (host_upper e) (f_name (newSoldier w)) (soldierImage w) = Some ph
         \<and> store (updateSoldier e w)
             = snd (supabase_update_soldier e (form_data (newSoldier w) ph) (soldier_id ed) (store w))"
    then obtain ed ph where ed: "editingSoldier w = Some ed"
      and nm: "f_name (newSoldier w) \<noteq> []"
      and ph: "photoData (host_upper e) (f_name (newSoldier w)) (soldierImage w) = Some ph"
      and st: "store (updateSoldier e w)
             = snd (supabase_update_soldier e (form_data (newSoldier w) ph) (soldier_id ed) (store w))"
      by blast
    from supabase_update_cases[of e "form_data (newSoldier w) ph" "soldier_id ed" "store w"]
    show ?thesis
    proof
      assume "snd (supabase_update_soldier e (form_data (newSoldier w) ph) (soldier_id ed) (store w))
              = store w"
      then show ?thesis using st by simp
    next
      assume "\<exists>tbl upd. update_rows (ddl (store w)) (server_now e) (form_data (newSoldier w) ph)
                  (soldier_id ed) (soldiers_tbl (store w)) = Inr (tbl, upd)
         \<and> fst (supabase_update_soldier e (form_data (newSoldier w) ph) (soldier_id ed) (store w)) = Inr upd
         \<and> snd (supabase_update_soldier e (form_data (newSoldier w) ph) (soldier_id ed) (store w))
             = (store w)\<lparr>soldiers_tbl := tbl\<rparr>"
      then obtain tbl upd where
        "update_rows (ddl (store w)) (server_now e) (form_data (newSoldier w) ph)
                  (soldier_id ed) (soldiers_tbl (store w)) = Inr (tbl, upd)"
        "snd (supabase_update_soldier e (form_data (newSoldier w) ph) (soldier_id ed) (store w))
             = (store w)\<lparr>soldiers_tbl := tbl\<rparr>"
        by blast
      then show ?thesis using ed nm ph st by auto
    qed
  qed
qed

lemma updateSoldier_frame:
  "list_all2 (\<lambda>old new. soldier_id new = soldier_id old \<and> created_at new = created_at old)
     (soldiers_tbl (store w)) (soldiers_tbl (store (updateSoldier e w)))"
proof -
  from updateSoldier_rows[of e w] show ?thesis
  proof
    assume "soldiers_tbl (store (updateSoldier e w)) = soldiers_tbl (store w)"
    then show ?thesis by (simp add: list_all2_conv_all_nth)
  next
    assume "\<exists>ed ph upd. editingSoldier w = Some ed
         \<and> f_name (newSoldier w) \<noteq> []
         \<and> photoData (host_upper e) (f_name (newSoldier w)) (soldierImage w) = Some ph
         \<and> update_rows (ddl (store w)) (server_now e) (form_data (newSoldier w) ph)
              (soldier_id ed) (soldiers_tbl (store w))
             = Inr (soldiers_tbl (store (updateSoldier e w)), upd)"
    then obtain ed :: soldier and ph upd where
      rows: "update_rows (ddl (store w)) (server_now e) (form_data (newSoldier w) ph)
              (soldier_id ed) (soldiers_tbl (store w))
             = Inr (soldiers_tbl (store (updateSoldier e w)), upd)"
      by auto
    show ?thesis
      using update_rows_rel[OF rows]
    proof (rule list_all2_mono)
      fix old new
      assume h: "if soldier_id old = soldier_id ed
         then (\<exists>r'. set_columns (ddl (store w)) (form_data (newSoldier w) ph) old = Inr r' \<and>
                new = update_updated_at_column (server_now e) r') \<and> new \<in> set upd
         else new = old"
      show "soldier_id new = soldier_id old \<and> created_at new = created_at old"
      proof (cases "soldier_id old = soldier_id ed")
        case False
        then show ?thesis using h by simp
      next
        case True
        with h obtain r' where
          r': "set_columns (ddl (store w)) (form_data (newSoldier w) ph) old = Inr r'"
          and new: "new = update_updated_at_column (server_now e) r'" by auto
        show ?thesis
          using set_columns_frame[OF r'] new by (simp add: update_updated_at_column_def)
      qed
    qed
  qed
qed

text \<open>
  C6 as stated (a successful update of an existing record leaves \<open>id\<close> and \<open>created_at\<close>
  as they were and strictly advances \<open>updated_at\<close>) fails in its last part: the trigger
  sets \<open>updated_at\<close> to the current time of the store, whatever the old value is. An
  update of \<open>john\<close> (last written at 10) at a moment when the store's clock reads 10
  leaves \<open>updated_at\<close> at 10, and one when the clock has been set back to 5 moves it to 5.
  Both updates succeed: the new position is stored.
\<close>

theorem update_does_not_always_advance:
  "map updated_at (soldiers_tbl (store editing_world)) = [10, 20]
   \<and> map updated_at (soldiers_tbl (store (updateSoldier same_instant editing_world))) = [10, 20]
   \<and> map position (soldiers_tbl (store (updateSoldier same_instant editing_world)))
       = [''Captain'', ''Lieutenant'']
   \<and> map updated_at (soldiers_tbl (store (updateSoldier clock_set_back editing_world))) = [5, 20]
   \<and> map position (soldiers_tbl (store (updateSoldier clock_set_back editing_world)))
       = [''Captain'', ''Lieutenant'']"
  by code_simp

text \<open>
  C6, amended: an update never changes the \<open>id\<close> or the \<open>created_at\<close> of any record, and
  a successful update of an existing record sets its \<open>updated_at\<close> to the current time of
  the store (\<open>NOW()\<close>), which is an advance only when the store's clock reads later than
  the old value. Here the update is the one \<open>updateSoldier\<close> issues for the soldier being
  edited, it is successful when the store returns rows and no error, and the record is
  the row of the table with that soldier's id.
\<close>

theorem update_keeps_id_and_sets_updated_at:
  "list_all2 (\<lambda>old new. soldier_id new = soldier_id old \<and> created_at new = created_at old)
     (soldiers_tbl (store w)) (soldiers_tbl (store (updateSoldier e w)))
   \<and> (editingSoldier w = Some ed
       \<and> f_name (newSoldier w) \<noteq> [] \<and> f_position (newSoldier w) \<noteq> [] \<and> f_age (newSoldier w) \<noteq> []
       \<and> photoData (host_upper e) (f_name (newSoldier w)) (soldierImage w) = Some ph
       \<and> fst (supabase_update_soldier e (form_data (newSoldier w) ph) (soldier_id ed) (store w))
           = Inr upd
       \<and> k < length (soldiers_tbl (store w))
       \<and> soldier_id (soldiers_tbl (store w) ! k) = soldier_id ed
      \<longrightarrow> updated_at (soldiers_tbl (store (updateSoldier e w)) ! k) = server_now e
        \<and> soldier_id (soldiers_tbl (store (updateSoldier e w)) ! k) = soldier_id ed
        \<and> created_at (soldiers_tbl (store (updateSoldier e w)) ! k)
            = created_at (soldiers_tbl (store w) ! k)
        \<and> soldiers_tbl (store (updateSoldier e w)) ! k \<in> set upd)"
proof -
  have set_now: "updated_at (soldiers_tbl (store (updateSoldier e w)) ! k) = server_now e
        \<and> soldier_id (soldiers_tbl (store (updateSoldier e w)) ! k) = soldier_id ed
        \<and> created_at (soldiers_tbl (store (updateSoldier e w)) ! k)
            = created_at (soldiers_tbl (store w) ! k)
        \<and> soldiers_tbl (store (updateSoldier e w)) ! k \<in> set upd"
    if ed: "editingSoldier w = Some ed"
      and form: "f_name (newSoldier w) \<noteq> []" "f_position (newSoldier w) \<noteq> []"
        "f_age (newSoldier w) \<noteq> []"
      and ph: "photoData (host_upper e) (f_name (newSoldier w)) (soldierImage w) = Some ph"
      and ok: "fst (supabase_update_soldier e (form_data (newSoldier w) ph) (soldier_id ed) (store w))
           = Inr upd"
      and k: "k < length (soldiers_tbl (store w))"
      and ex: "soldier_id (soldiers_tbl (store w) ! k) = soldier_id ed"
  proof -
    have st: "store (updateSoldier e w)
            = snd (supabase_update_soldier e (form_data (newSoldier w) ph) (soldier_id ed) (store w))"
      using ed form ph by (simp add: updateSoldier_def Let_def split: prod.splits sum.splits)
    have rows: "update_rows (ddl (store w)) (server_now e) (form_data (newSoldier w) ph)
                  (soldier_id ed) (soldiers_tbl (store w))
                = Inr (soldiers_tbl (store (updateSoldier e w)), upd)"
      using supabase_update_success[OF ok] st by simp
    from list_all2_nthD[OF update_rows_rel[OF rows] k] ex obtain r' where
      r': "set_columns (ddl (store w)) (form_data (newSoldier w) ph) (soldiers_tbl (store w) ! k)
           = Inr r'"
      and new: "soldiers_tbl (store (updateSoldier e w)) ! k
                = update_updated_at_column (server_now e) r'"
      and mem: "soldiers_tbl (store (updateSoldier e w)) ! k \<in> set upd"
      by auto
    show ?thesis
      using new mem set_columns_frame[OF r'] ex by (simp add: update_updated_at_column_def)
  qed
  show ?thesis using updateSoldier_frame[of w e] set_now by blast
qed

theorem update_keeps_id_and_sets_updated_at_witness:
  "editingSoldier editing_world = Some john
   \<and> photoData (host_upper e0) (f_name (newSoldier editing_world)) (soldierImage editing_world)
       = Some ''JO''
   \<and> fst (supabase_update_soldier e0 (form_data (newSoldier editing_world) ''JO'') (soldier_id john)
            (store editing_world))
       = Inr [john\<lparr>position := ''Captain'', age := 29, updated_at := 2000\<rparr>]
   \<and> soldier_id (soldiers_tbl (store editing_world) ! 0) = soldier_id john
   \<and> updated_at (soldiers_tbl (store editing_world) ! 0) = 10
   \<and> updated_at (soldiers_tbl (store (updateSoldier e0 editing_world)) ! 0) = 2000
   \<and> soldier_id (soldiers_tbl (store (updateSoldier e0 editing_world)) ! 0) = 1
   \<and> created_at (soldiers_tbl (store (updateSoldier e0 editing_world)) ! 0) = 10"
proof -
  have w: "editingSoldier editing_world = Some john"
    "newSoldier editing_world = \<lparr>f_name = ''John Doe'', f_position = ''Captain'', f_sex = ''Male'',
                                  f_age = ''29'', f_status = ''Active''\<rparr>"
    "soldierImage editing_world = None" "store editing_world = roster_db"
    by (simp_all add: editing_world_def roster_world_def initial_world_def)
  have age: "parseInt ''29'' = Some 29" by code_simp
  have ph: "photoData (host_upper e0) (f_name (newSoldier editing_world)) (soldierImage editing_world)
       = Some ''JO''"
    by (simp add: w photoData_john_doe)
  have upd: "fst (supabase_update_soldier e0 (form_data (newSoldier editing_world) ''JO'')
                    (soldier_id john) (store editing_world))
       = Inr [john\<lparr>position := ''Captain'', age := 29, updated_at := 2000\<rparr>]"
    by (simp add: w age form_data_def supabase_update_soldier_def update_soldier_def update_row_def
        update_updated_at_column_def set_columns_def integer_ok_def sex_check_def
        status_check_def e0_def roster_db_def john_def jane_def)
  have k: "0 < length (soldiers_tbl (store editing_world))"
    "soldiers_tbl (store editing_world) ! 0 = john"
    by (simp_all add: w roster_db_def)
  have j: "soldier_id john = 1" "created_at john = 10" "updated_at john = 10" "server_now e0 = 2000"
    by (simp_all add: john_def e0_def)
  show ?thesis
    using update_keeps_id_and_sets_updated_at[of editing_world e0 john "''JO''"
        "[john\<lparr>position := ''Captain'', age := 29, updated_at := 2000\<rparr>]" 0]
      w(1) ph upd k j
    by (simp add: w)
qed


subsection \<open>The photo of a written record\<close>


lemma startsWith_length: "startsWith s p \<Longrightarrow> length p \<le> length s"
  by (metis startsWith_def length_take min.cobounded1)

















subsection \<open>Images above the size cap\<close>

lemma big_image_prefix: "startsWith big_image ''data:image''"
  by (simp add: big_image_def startsWith_def)

lemma big_image_length: "length big_image > 1024 * 1024"
  by (simp add: big_image_def)

lemma photoData_big: "photoData up nm (Some big_image) = None"
  using big_image_prefix big_image_length by (auto simp: photoData_def Let_def)

text \<open>
  C5 (a create or an update whose image text is longer than 1 MiB is rejected before any
  store call): when the form's image starts with \<open>data:image\<close>, as every uploaded or
  captured image does, and has more than \<open>1024 * 1024\<close> characters, \<open>addSoldier\<close> and
  \<open>updateSoldier\<close> return the state they were given, with at most the alert added: no
  request is recorded, the store and the roster are unchanged.
\<close>

theorem oversized_image_rejected:
  assumes "soldierImage w = Some img" and "startsWith img ''data:image''"
    and "length img > 1024 * 1024"
  shows "(addSoldier e w = w
          \<or> addSoldier e w
             = w\<lparr>effects := effects w @ [Alert ''Image is too large. Please use a smaller image.'']\<rparr>)
       \<and> (updateSoldier e w = w
          \<or> updateSoldier e w
             = w\<lparr>effects := effects w @ [Alert ''Image is too large. Please use a smaller image.'']\<rparr>)"
proof -
  have ne: "img \<noteq> []" using assms(3) by auto
  have "photoData up nm (soldierImage w) = None" for up nm
    using assms ne by (simp add: photoData_def Let_def)
  then show ?thesis
    by (auto simp: addSoldier_def updateSoldier_def Let_def split: option.splits)
qed

theorem oversized_image_rejected_witness:
  "soldierImage big_image_world = Some big_image
   \<and> startsWith big_image ''data:image''
   \<and> length big_image > 1024 * 1024
   \<and> addSoldier e0 big_image_world
       = big_image_world\<lparr>effects := [Alert ''Image is too large. Please use a smaller image.'']\<rparr>
   \<and> store (addSoldier e0 big_image_world) = empty_db Part000
   \<and> updateSoldier e0 big_image_world = big_image_world"
proof -
  have img: "soldierImage big_image_world = Some big_image"
    by (simp add: big_image_world_def)
  have run: "addSoldier e0 big_image_world
       = big_image_world\<lparr>effects := [Alert ''Image is too large. Please use a smaller image.'']\<rparr>"
    "updateSoldier e0 big_image_world = big_image_world"
    by (simp_all add: addSoldier_def updateSoldier_def big_image_world_def john_doe_form_def
        initial_world_def photoData_big)
  have st: "store big_image_world = empty_db Part000"
    by (simp add: big_image_world_def initial_world_def)
  show ?thesis
    using oversized_image_rejected[OF img big_image_prefix big_image_length, of e0]
      img big_image_prefix big_image_length run st
    by simp
qed


subsection \<open>The face comparison\<close>

lemma compareFacesWithGemini_never_throws:
  "\<exists>m. fst (compareFacesWithGemini g cs) = Inr m"
  by (cases g) (auto simp: compareFacesWithGemini_def Let_def split: option.splits)

lemma compareFacesWithGemini_failure:
  "g \<in> {FetchRejected, JsonRejected, NotTraversable} \<Longrightarrow> fst (compareFacesWithGemini g cs) = Inr None"
  by (auto simp: compareFacesWithGemini_def)

lemma failed_comparison_never_picks:
  assumes "refs_available c" and "context_available c"
    and "gemini c \<in> {FetchRejected, JsonRejected, NotTraversable}"
  shows "comparisonResult (handleCompareFaces e c w) = None"
proof -
  have g: "compareFacesWithGemini (gemini c) cs
           = (Inr None, [Fetch ''generateContent'', ConsoleError ''Gemini AI comparison error:''])" for cs
    using assms(3) by (auto simp: compareFacesWithGemini_def)
  show ?thesis
    using assms(1,2) by (simp add: handleCompareFaces_def Let_def g log_error_def)
qed

text \<open>
  C4 (when the call to the generative endpoint fails and there is a candidate with an
  image, the comparison falls back to a random candidate): \<open>compareFacesWithGemini\<close>
  catches every failure itself and returns \<open>null\<close>, so the \<open>catch\<close> in
  \<open>handleCompareFaces\<close> that picks a random candidate is never entered
  (\<open>compareFacesWithGemini_never_throws\<close>) and a failed call never yields a match
  (\<open>failed_comparison_never_picks\<close>). With one candidate that has an image and a
  rejected \<open>fetch\<close>, the result is no match and a \<open>WARN\<close> entry.
\<close>

theorem failed_comparison_reports_no_match:
  "comparisonResult (handleCompareFaces e0 (camera_ok FetchRejected) roster_world) = None
   \<and> map message (systemLogs (handleCompareFaces e0 (camera_ok FetchRejected) roster_world))
       = [''Face comparison completed. No match found.'']
   \<and> map level (systemLogs (handleCompareFaces e0 (camera_ok FetchRejected) roster_world))
       = [''WARN'']
   \<and> filter has_image (map the (soldiers roster_world)) = [jane]"
  by (simp add: handleCompareFaces_def camera_ok_def roster_world_def initial_world_def
      has_image_def jane_def john_def startsWith_def compareFacesWithGemini_def Let_def
      add_log_def local_log_def e0_def)

subsection \<open>Clearing the log\<close>

text \<open>
  C2 as stated (after \<open>clearAll\<close> on the logs, \<open>list\<close> returns an empty sequence) fails:
  \<open>clearLogs\<close> writes an entry of its own after it has emptied the log, in both versions
  of the client.
\<close>

theorem clearLogs_then_list_not_empty:
  "map message (systemLogs (clearLogs e0 logged_world)) = [''System logs cleared'']
   \<and> map message (systemLogs (loadSystemLogs e0 (clearLogs_persisted e0 e0 logged_world)))
       = [''System logs cleared'']"
  by (simp add: clearLogs_def Let_def clearLogs_persisted_def saveSystemLog_def insert_log_def
      delete_logs_neq_def varchar_def level_check_def loadSystemLogs_def select_logs_def
      add_log_def local_log_def logged_world_def initial_world_def roster_db_def seed_logs_def
      e0_def)

text \<open>
  C2, amended: \<open>clearLogs\<close> removes every entry the log held and then writes one
  \<open>INFO\<close>/\<open>SYSTEM\<close> entry \<open>System logs cleared\<close>; the log then holds exactly that entry.
  In the version that persists its log this is so when the requests reach the store and
  no row has the id 0 (the \<open>DELETE\<close> spares that id): the table and a following
  \<open>loadSystemLogs\<close> hold exactly the new row.
\<close>

theorem clearLogs_leaves_one_entry:
  "systemLogs (clearLogs e w) =
     [local_log (client_now e) ''INFO'' ''SYSTEM'' ''System logs cleared''
        (JObj [(''action'', JStr ''clear'')])]
   \<and> (connected e1 \<and> connected e2 \<and> connected e3
       \<and> filter (\<lambda>r. log_id r = 0) (system_logs_tbl (store w)) = [] \<longrightarrow>
        system_logs_tbl (store (clearLogs_persisted e1 e2 w)) =
          [\<lparr>log_id = system_logs_seq (store w), log_created_at = server_now e2, level = ''INFO'',
            tag = Some ''SYSTEM'', message = ''System logs cleared'',
            log_context = JObj [(''action'', JStr ''clear'')], created_by = Some ''user''\<rparr>]
      \<and> systemLogs (loadSystemLogs e3 (clearLogs_persisted e1 e2 w)) =
          [\<lparr>log_id = system_logs_seq (store w), log_created_at = server_now e2, level = ''INFO'',
            tag = Some ''SYSTEM'', message = ''System logs cleared'',
            log_context = JObj [(''action'', JStr ''clear'')], created_by = Some ''user''\<rparr>])"
  by (simp add: clearLogs_def Let_def clearLogs_persisted_def saveSystemLog_def insert_log_def
      delete_logs_neq_def varchar_def level_check_def loadSystemLogs_def select_logs_def add_log_def)

theorem clearLogs_leaves_one_entry_witness:
  "connected e0
   \<and> filter (\<lambda>r. log_id r = 0) (system_logs_tbl (store logged_world)) = []
   \<and> length (systemLogs logged_world) = 2
   \<and> systemLogs (clearLogs e0 logged_world) =
       [local_log 1000 ''INFO'' ''SYSTEM'' ''System logs cleared'' (JObj [(''action'', JStr ''clear'')])]
   \<and> systemLogs (loadSystemLogs e0 (clearLogs_persisted e0 e0 logged_world)) =
       [\<lparr>log_id = 3, log_created_at = 2000, level = ''INFO'', tag = Some ''SYSTEM'',
         message = ''System logs cleared'', log_context = JObj [(''action'', JStr ''clear'')],
         created_by = Some ''user''\<rparr>]"
proof -
  have on: "connected e0" "client_now e0 = 1000" "server_now e0 = 2000"
    by (simp_all add: e0_def)
  have tbl: "filter (\<lambda>r. log_id r = 0) (system_logs_tbl (store logged_world)) = []"
    "system_logs_seq (store logged_world) = 3" "length (systemLogs logged_world) = 2"
    by (simp_all add: logged_world_def initial_world_def roster_db_def seed_logs_def)
  show ?thesis
    using clearLogs_leaves_one_entry[of e0 logged_world e0 e0 e0] on tbl by simp
qed


end
